theory Spec2Isabelle
  imports Main
begin

section \<open>Go values used by the client and the adapters\<close>

text \<open>
  Go's \<^verbatim>\<open>int\<close> is 64 bits wide on the platforms the program runs on. The program never
  computes with the identifiers it handles (it parses, compares, copies and prints them),
  so they are modelled as \<open>int\<close>; the 64-bit range shows up only where
  \<^verbatim>\<open>strconv.Atoi\<close> rejects a numeral outside it.
\<close>

text \<open>
  A value of type \<^verbatim>\<open>interface{}\<close>, as far as the program inspects one: the nil
  interface, or a value whose dynamic type is \<^verbatim>\<open>string\<close>, \<^verbatim>\<open>map[string]interface{}\<close> or
  something else.
\<close>

datatype iface =
    INil
  | IString string
  | IInt int
  | IBool bool
  | IList "iface list"
  | IMap "(string \<times> iface) list"

text \<open>
  A Go function either returns or panics (a failed type assertion, a nil dereference, an
  index out of range).
\<close>

datatype 'a outcome = Return 'a | Panic

text \<open>
  \<^verbatim>\<open>context.Context\<close>: the background context, which is never cancelled, or a context
  the caller derived, with whether it has been cancelled.
\<close>

datatype Context = Background | WithCancel bool

datatype Time = UnixNano int

section \<open>The api package: response envelope, typed error, client\<close>

text \<open>
  A raw post of the backend. The struct is declared elsewhere in the package; the fields
  are those the adapter reads.
\<close>

record PostModel =
  pm_ID :: int
  pm_Name :: string
  pm_CreatedAt :: string
  pm_Cooked :: string
  pm_UserID :: int

record Response =
  resp_Type :: string
  resp_Timestamp :: int
  resp_Message :: string
  resp_Validation :: "(string \<times> iface) list"
  resp_Post :: PostModel
  resp_Posts :: "PostModel list"

text \<open>
  Go errors. \<open>RequestError\<close> is the struct of that name (the envelope and the wrapped
  error's text); the others are the errors of the libraries the program calls:
  \<^verbatim>\<open>strconv\<close> (syntax, range), the HTTP transport, \<^verbatim>\<open>encoding/json\<close> and
  \<^verbatim>\<open>context\<close>.
\<close>

datatype error =
    ErrSyntax string
  | ErrRange string
  | ErrTransport string
  | ErrDecode string
  | ErrCanceled
  | RequestError Response string

subsection \<open>Conversions between strings and integers (strconv)\<close>

definition is_digit :: "char \<Rightarrow> bool" where
  "is_digit ch = (48 \<le> (of_char ch :: nat) \<and> (of_char ch :: nat) \<le> 57)"

fun digits_value :: "int \<Rightarrow> string \<Rightarrow> int" where
  "digits_value n [] = n"
| "digits_value n (ch # s) = digits_value (n * 10 + (int (of_char ch) - 48)) s"

text \<open>
  \<^verbatim>\<open>strconv.Atoi\<close>: an optional sign, then one or more decimal digits and nothing else;
  a syntax error otherwise, a range error when the value does not fit 64 bits.
\<close>

definition Atoi :: "string \<Rightarrow> error + int" where
  "Atoi s0 =
     (let s = (case s0 of [] \<Rightarrow> []
                | ch # r \<Rightarrow> if ch = CHR ''-'' \<or> ch = CHR ''+'' then r else s0)
      in if s = [] then Inl (ErrSyntax s0)
         else if list_ex (\<lambda>ch. \<not> is_digit ch) s then Inl (ErrSyntax s0)
         else let n = (if hd s0 = CHR ''-'' then - digits_value 0 s else digits_value 0 s)
              in if n < - (2 ^ 63) \<or> 2 ^ 63 \<le> n then Inl (ErrRange s0) else Inr n)"

definition digit_char :: "nat \<Rightarrow> char" where
  "digit_char d = ''0123456789'' ! d"

fun nat_digits :: "nat \<Rightarrow> string" where
  "nat_digits n =
     (if n < 10 then [digit_char n] else nat_digits (n div 10) @ [digit_char (n mod 10)])"

declare nat_digits.simps [simp del]

text \<open>\<^verbatim>\<open>strconv.Itoa\<close>: the decimal numeral of an integer, with \<open>-\<close> in front when negative.\<close>

definition Itoa :: "int \<Rightarrow> string" where
  "Itoa i = (if i < 0 then CHR ''-'' # nat_digits (nat (- i)) else nat_digits (nat i))"

subsection \<open>Requests, responses and the client\<close>

record Request =
  req_Method :: string
  req_URL :: string
  req_Header :: "(string \<times> string) list"
  req_Body :: string

text \<open>
  What \<^verbatim>\<open>c.httpClient.Do\<close> hands back on success: the status code and the body stream,
  the latter as what \<^verbatim>\<open>ioutil.ReadAll\<close> makes of it (its bytes, or a read error).
\<close>

record HttpResponse =
  StatusCode :: int
  Body :: "error + string"

record ClientConfig =
  Endpoint :: string
  Credentials :: "string \<rightharpoonup> string"

record Client =
  RetryMax :: int
  endpoint :: string
  credentials :: "string \<rightharpoonup> string"

text \<open>
  \<^verbatim>\<open>NewClient\<close> (lines 101 to 116): the retrying HTTP client is configured with
  \<^verbatim>\<open>RetryMax = 3\<close>. The HTTP client handle and the logger are left out.
\<close>

definition NewClient :: "ClientConfig \<Rightarrow> Client" where
  "NewClient cc = \<lparr>RetryMax = 3, endpoint = Endpoint cc, credentials = Credentials cc\<rparr>"

text \<open>
  The libraries under \<^verbatim>\<open>Client.Do\<close>, taken as parameters:
  \<^verbatim>\<open>retryablehttp.FromRequest\<close>, the retrying client's \<^verbatim>\<open>Do\<close> (given the configured
  \<^verbatim>\<open>RetryMax\<close>, the context attached to the request and the request) and
  \<^verbatim>\<open>json.Unmarshal\<close> (given the body and the destination's content, it returns its error
  and the destination's content afterwards).
\<close>

record HttpEnv =
  FromRequest :: "Request \<Rightarrow> error + Request"
  httpClient_Do :: "int \<Rightarrow> Context \<Rightarrow> Request \<Rightarrow> error + HttpResponse"
  json_Unmarshal :: "string \<Rightarrow> Response \<Rightarrow> error option \<times> Response"

text \<open>
  \<^verbatim>\<open>Client.Do\<close> (lines 156 to 195 of the client's file). The destination \<open>content\<close> is a pointer: \<open>None\<close> is nil, \<open>Some r\<close> points
  to an envelope holding \<open>r\<close>. The result is what the call returns (nil is \<open>None\<close>) or that
  it panics, and the destination afterwards.
\<close>

definition Do :: "HttpEnv \<Rightarrow> Client \<Rightarrow> Context \<Rightarrow> Request \<Rightarrow> Response option
    \<Rightarrow> error option outcome \<times> Response option" where
  "Do env c ctx req content =
     (case FromRequest env req of
        Inl err \<Rightarrow> (Return (Some err), content)
      | Inr rreq \<Rightarrow>
         (case httpClient_Do env (RetryMax c) ctx rreq of
            Inl err \<Rightarrow> (Return (Some err), content)
          | Inr res \<Rightarrow>
             (case Body res of
                Inl err \<Rightarrow> (Return (Some err), content)
              | Inr body \<Rightarrow>
                 (let (err, content') =
                        (case content of
                           None \<Rightarrow> (None, None)
                         | Some r \<Rightarrow>
                            (case json_Unmarshal env body r of (e, r') \<Rightarrow> (e, Some r')))
                  in case err of
                       Some e \<Rightarrow> (Return (Some e), content')
                     | None \<Rightarrow>
                        if StatusCode res < 200 \<or> StatusCode res > 204
                        then (case content' of
                                None \<Rightarrow> (Panic, content')
                              | Some r' \<Rightarrow>
                                 (Return (Some (RequestError r' ''Non-2xx status code'')), content'))
                        else (Return None, content')))))"

section \<open>The canonical model (models packages)\<close>

text \<open>
  The fields are those the adapters read and write. Field names carry the struct's name
  in front, since several structs have an \<^verbatim>\<open>ID\<close>, a \<^verbatim>\<open>Name\<close> or a \<^verbatim>\<open>Body\<close>.
\<close>

record Author =
  author_ID :: string
  author_Name :: string

record Forum =
  forum_ID :: string
  forum_Name :: string

record Reply =
  reply_ID :: string
  reply_InReplyTo :: string
  reply_Body :: string
  reply_CreatedAt :: Time
  reply_Author :: Author
  reply_SysIDX :: int

record Post =
  post_ID :: string
  post_Subject :: string
  post_Body :: string
  post_Type :: string
  post_Pinned :: bool
  post_Closed :: bool
  post_CreatedAt :: Time
  post_LastCommentedAt :: Time
  post_Author :: Author
  post_Forum :: Forum
  post_Replies :: "Reply list"
  post_SysIDX :: int

section \<open>The discourse adapter\<close>

subsection \<open>Backend shapes and the service handlers\<close>

datatype CategoryModel =
  CategoryModel (cat_ID: int) (cat_Name: string) (SubcategoryList: "CategoryModel list")

record Poster =
  poster_UserID :: int

record UserModel =
  user_ID :: int
  user_Name :: string

record TopicModel =
  topic_ID :: int
  topic_Title :: string
  topic_Pinned :: bool
  topic_Closed :: bool
  topic_CreatedAt :: string
  topic_LastPostedAt :: string
  topic_CategoryID :: int
  topic_Posters :: "Poster list"

text \<open>The latest-topics listing: \<^verbatim>\<open>Users\<close> and \<^verbatim>\<open>TopicList.Topics\<close>.\<close>

record LatestTopics =
  Users :: "UserModel list"
  Topics :: "TopicModel list"

record CreatePostModel =
  cp_Title :: string
  cp_Raw :: string
  cp_Category :: int
  cp_TopicID :: int
  cp_ReplyToPostNumber :: int
  cp_CreatedAt :: string

text \<open>
  What the adapter calls and does not define, taken as parameters: the service handlers
  of the client (each is given the context of the call; \<^verbatim>\<open>Topics.Show\<close> yields the
  topic's \<^verbatim>\<open>PostStream.Posts\<close>), the date parser, the HTML-to-markdown converter and the
  clock with its RFC 3339 rendering.
\<close>

record Backend =
  Categories_List :: "Context \<Rightarrow> error + CategoryModel list"
  Topics_ListLatest :: "Context \<Rightarrow> error + LatestTopics"
  Topics_Show :: "Context \<Rightarrow> string \<Rightarrow> error + PostModel list"
  Posts_Create :: "Context \<Rightarrow> CreatePostModel \<Rightarrow> error + PostModel"
  ParseAny :: "string \<Rightarrow> error + Time"
  ConvertString :: "string \<Rightarrow> error + string"
  Now :: Time
  Format_RFC3339Nano :: "Time \<Rightarrow> string"

text \<open>
  The adapter. \<open>config k\<close> is what \<^verbatim>\<open>sys.config[k]\<close> evaluates to: the nil interface
  for a key the map does not hold (and for a key bound to nil). \<open>client\<close> is the
  pointer \<^verbatim>\<open>sys.client\<close>, nil until \<open>Load\<close> sets it. The logger is left out: it is
  taken to be set, and what it prints is not modelled.
\<close>

record System =
  sys_ID :: int
  config :: "string \<Rightarrow> iface"
  client :: "Client option"

subsection \<open>Load (discourse.go, lines 84 to 103)\<close>

text \<open>
  The loop that copies the credentials. \<^verbatim>\<open>v.(string)\<close> panics on a value that is not a
  string.
\<close>

fun copy_credentials :: "(string \<times> iface) list \<Rightarrow> (string \<rightharpoonup> string)
    \<Rightarrow> (string \<rightharpoonup> string) outcome" where
  "copy_credentials [] creds = Return creds"
| "copy_credentials ((k, v) # kvs) creds =
     (case v of
        IString s \<Rightarrow> copy_credentials kvs (creds(k \<mapsto> s))
      | _ \<Rightarrow> Panic)"

text \<open>
  A network call, for the trace an operation leaves: \<open>Load\<close> of either adapter returns
  the calls it made, in order. The discourse adapter's \<open>Load\<close> makes none (it only
  constructs the client); the lemmy adapter's logs in.
\<close>

datatype NetCall = NetLogin string string

definition Load :: "System \<Rightarrow> error option outcome \<times> System \<times> NetCall list" where
  "Load sys =
     (let url = config sys ''url''
      in if url = INil then (Return None, sys, [])
         else
           (case config sys ''credentials'' of
              IMap kvs \<Rightarrow>
                (case copy_credentials kvs Map.empty of
                   Panic \<Rightarrow> (Panic, sys, [])
                 | Return creds \<Rightarrow>
                    (case url of
                       IString u \<Rightarrow>
                         (Return None,
                          sys\<lparr>client := Some (NewClient \<lparr>Endpoint = u, Credentials = creds\<rparr>)\<rparr>,
                          [])
                     | _ \<Rightarrow> (Panic, sys, [])))
            | _ \<Rightarrow> (Panic, sys, [])))"

subsection \<open>ListPosts (lines 105 to 178)\<close>

text \<open>The scan of the user directory: the first user with the identifier, else the empty name.\<close>

fun userName_scan :: "UserModel list \<Rightarrow> int \<Rightarrow> string \<Rightarrow> string" where
  "userName_scan [] uid userName = userName"
| "userName_scan (u # us) uid userName =
     (if user_ID u = uid then user_Name u else userName_scan us uid userName)"

text \<open>
  The inner loop over one category's subcategories: a match assigns \<^verbatim>\<open>forumName\<close> and
  breaks out of this loop.
\<close>

fun subcategory_scan :: "CategoryModel list \<Rightarrow> int \<Rightarrow> string \<Rightarrow> string" where
  "subcategory_scan [] cid forumName = forumName"
| "subcategory_scan (subcat # subcats) cid forumName =
     (if cat_ID subcat = cid then cat_Name subcat else subcategory_scan subcats cid forumName)"

text \<open>
  The outer loop over the categories: a direct match assigns \<^verbatim>\<open>forumName\<close> and breaks;
  otherwise the category's subcategories are scanned, and the loop goes on to the next
  category with whatever \<^verbatim>\<open>forumName\<close> holds then.
\<close>

fun category_scan :: "CategoryModel list \<Rightarrow> int \<Rightarrow> string \<Rightarrow> string" where
  "category_scan [] cid forumName = forumName"
| "category_scan (cat # cats) cid forumName =
     (if cat_ID cat = cid then cat_Name cat
      else category_scan cats cid (subcategory_scan (SubcategoryList cat) cid forumName))"

definition forumName_of :: "CategoryModel list \<Rightarrow> int \<Rightarrow> string" where
  "forumName_of cats cid = category_scan cats cid []"

definition parse_or_now :: "Backend \<Rightarrow> string \<Rightarrow> Time" where
  "parse_or_now be s = (case ParseAny be s of Inl err \<Rightarrow> Now be | Inr t \<Rightarrow> t)"

text \<open>
  One pass of the loop over the topics. \<^verbatim>\<open>i.Posters[0]\<close> panics on a topic without
  posters.
\<close>

definition topic_post :: "Backend \<Rightarrow> System \<Rightarrow> CategoryModel list \<Rightarrow> UserModel list
    \<Rightarrow> TopicModel \<Rightarrow> Post outcome" where
  "topic_post be sys cats users i =
     (case topic_Posters i of
        [] \<Rightarrow> Panic
      | poster # others \<Rightarrow>
         Return
           \<lparr>post_ID = Itoa (topic_ID i),
            post_Subject = topic_Title i,
            post_Body = [],
            post_Type = ''post'',
            post_Pinned = topic_Pinned i,
            post_Closed = topic_Closed i,
            post_CreatedAt = parse_or_now be (topic_CreatedAt i),
            post_LastCommentedAt = parse_or_now be (topic_LastPostedAt i),
            post_Author =
              \<lparr>author_ID = Itoa (poster_UserID poster),
               author_Name = userName_scan users (poster_UserID poster) []\<rparr>,
            post_Forum =
              \<lparr>forum_ID = Itoa (topic_CategoryID i),
               forum_Name = forumName_of cats (topic_CategoryID i)\<rparr>,
            post_Replies = [],
            post_SysIDX = sys_ID sys\<rparr>)"

fun topics_loop :: "Backend \<Rightarrow> System \<Rightarrow> CategoryModel list \<Rightarrow> UserModel list
    \<Rightarrow> TopicModel list \<Rightarrow> Post list \<Rightarrow> Post list outcome" where
  "topics_loop be sys cats users [] models = Return models"
| "topics_loop be sys cats users (i # topics) models =
     (case topic_post be sys cats users i of
        Panic \<Rightarrow> Panic
      | Return p \<Rightarrow> topics_loop be sys cats users topics (models @ [p]))"

definition ListPosts :: "Backend \<Rightarrow> System \<Rightarrow> (Post list \<times> error option) outcome" where
  "ListPosts be sys =
     (case client sys of
        None \<Rightarrow> Panic
      | Some c \<Rightarrow>
         (case Categories_List be Background of
            Inl err \<Rightarrow> Return ([], Some err)
          | Inr cats \<Rightarrow>
             (case Topics_ListLatest be Background of
                Inl err \<Rightarrow> Return ([], Some err)
              | Inr items \<Rightarrow>
                 (case topics_loop be sys cats (Users items) (Topics items) [] of
                    Panic \<Rightarrow> Panic
                  | Return models \<Rightarrow> Return (models, None)))))"

subsection \<open>LoadPost (lines 180 to 221)\<close>

text \<open>The converted content of a raw post: the raw content itself when the conversion fails.\<close>

definition cooked_markdown :: "Backend \<Rightarrow> PostModel \<Rightarrow> string" where
  "cooked_markdown be i =
     (case ConvertString be (pm_Cooked i) of Inl err \<Rightarrow> pm_Cooked i | Inr cookedMd \<Rightarrow> cookedMd)"

definition stream_reply :: "Backend \<Rightarrow> System \<Rightarrow> Post \<Rightarrow> PostModel \<Rightarrow> Reply" where
  "stream_reply be sys p i =
     \<lparr>reply_ID = Itoa (pm_ID i),
      reply_InReplyTo = post_ID p,
      reply_Body = cooked_markdown be i,
      reply_CreatedAt = parse_or_now be (pm_CreatedAt i),
      reply_Author = \<lparr>author_ID = Itoa (pm_UserID i), author_Name = pm_Name i\<rparr>,
      reply_SysIDX = sys_ID sys\<rparr>"

text \<open>
  The loop over the post stream, from index \<open>idx\<close> on: the item at index 0 sets the body,
  every other item appends a reply.
\<close>

fun stream_loop :: "Backend \<Rightarrow> System \<Rightarrow> nat \<Rightarrow> PostModel list \<Rightarrow> Post \<Rightarrow> Post" where
  "stream_loop be sys idx [] p = p"
| "stream_loop be sys idx (i # posts) p =
     (if idx = 0
      then stream_loop be sys (Suc idx) posts (p\<lparr>post_Body := cooked_markdown be i\<rparr>)
      else stream_loop be sys (Suc idx) posts
             (p\<lparr>post_Replies := post_Replies p @ [stream_reply be sys p i]\<rparr>))"

text \<open>\<open>LoadPost\<close> mutates the post it is given: the result holds the post afterwards.\<close>

definition LoadPost :: "Backend \<Rightarrow> System \<Rightarrow> Post \<Rightarrow> error option outcome \<times> Post" where
  "LoadPost be sys p =
     (case client sys of
        None \<Rightarrow> (Panic, p)
      | Some c \<Rightarrow>
         (case Topics_Show be Background (post_ID p) of
            Inl err \<Rightarrow> (Return (Some err), p)
          | Inr posts \<Rightarrow> (Return None, stream_loop be sys 0 posts p)))"

subsection \<open>CreatePost (lines 223 to 243) and CreateReply (lines 245 to 289)\<close>

definition CreatePost :: "Backend \<Rightarrow> System \<Rightarrow> Post \<Rightarrow> error option outcome \<times> Post" where
  "CreatePost be sys p =
     (case Atoi (forum_ID (post_Forum p)) of
        Inl err \<Rightarrow> (Return (Some err), p)
      | Inr categoryID \<Rightarrow>
         (let ap = \<lparr>cp_Title = post_Subject p, cp_Raw = post_Body p, cp_Category = categoryID,
                    cp_TopicID = 0, cp_ReplyToPostNumber = 0,
                    cp_CreatedAt = Format_RFC3339Nano be (Now be)\<rparr>
          in case client sys of
               None \<Rightarrow> (Panic, p)
             | Some c \<Rightarrow>
                (case Posts_Create be Background ap of
                   Inl err \<Rightarrow> (Return (Some err), p)
                 | Inr cp \<Rightarrow> (Return None, p\<lparr>post_ID := Itoa (pm_ID cp)\<rparr>))))"

text \<open>
  The first part of \<open>CreateReply\<close>, up to the request it has built: the two conversions
  and the choice between the two request shapes. A field the struct literal leaves out
  has Go's zero value.
\<close>

definition reply_request :: "Backend \<Rightarrow> Reply \<Rightarrow> error + CreatePostModel" where
  "reply_request be r =
     (case Atoi (reply_ID r) of
        Inl err \<Rightarrow> Inl err
      | Inr ID \<Rightarrow>
         (case (if reply_InReplyTo r \<noteq> [] then Atoi (reply_InReplyTo r) else Inr (- 1)) of
            Inl err \<Rightarrow> Inl err
          | Inr inReplyTo \<Rightarrow>
             if inReplyTo = - 1
             then Inr \<lparr>cp_Title = [], cp_Raw = reply_Body r, cp_Category = 0,
                       cp_TopicID = ID, cp_ReplyToPostNumber = 0,
                       cp_CreatedAt = Format_RFC3339Nano be (Now be)\<rparr>
             else Inr \<lparr>cp_Title = [], cp_Raw = reply_Body r, cp_Category = 0,
                       cp_TopicID = inReplyTo, cp_ReplyToPostNumber = ID,
                       cp_CreatedAt = Format_RFC3339Nano be (Now be)\<rparr>))"

text \<open>
  \<open>CreateReply\<close>: the request is submitted through \<^verbatim>\<open>Posts.Create\<close>, and on success the
  reply's \<^verbatim>\<open>ID\<close> is overwritten.
\<close>

definition CreateReply :: "Backend \<Rightarrow> System \<Rightarrow> Reply \<Rightarrow> error option outcome \<times> Reply" where
  "CreateReply be sys r =
     (case reply_request be r of
        Inl err \<Rightarrow> (Return (Some err), r)
      | Inr ap \<Rightarrow>
         (case client sys of
            None \<Rightarrow> (Panic, r)
          | Some c \<Rightarrow>
             (case Posts_Create be Background ap of
                Inl err \<Rightarrow> (Return (Some err), r)
              | Inr cp \<Rightarrow> (Return None, r\<lparr>reply_ID := Itoa (pm_ID cp)\<rparr>))))"

section \<open>The lemmy adapter: Load (lines 320 to 346)\<close>

record LemmyClient =
  baseURL :: string

text \<open>
  The go-lemmy library, taken as parameters: \<^verbatim>\<open>lemmy.New\<close> and the client's
  \<^verbatim>\<open>Login\<close> (given the client, the context, the user name and the password).
\<close>

record LemmyEnv =
  lemmy_New :: "string \<Rightarrow> error + LemmyClient"
  lemmy_Login :: "LemmyClient \<Rightarrow> Context \<Rightarrow> string \<Rightarrow> string \<Rightarrow> error option"

record LemmySystem =
  lemmy_config :: "string \<Rightarrow> iface"
  lemmy_client :: "LemmyClient option"

text \<open>Reading a key of a \<^verbatim>\<open>map[string]string\<close>: the empty string when the key is missing.\<close>

definition lookup_string :: "(string \<rightharpoonup> string) \<Rightarrow> string \<Rightarrow> string" where
  "lookup_string m k = (case m k of None \<Rightarrow> [] | Some v \<Rightarrow> v)"

definition lemmy_Load :: "LemmyEnv \<Rightarrow> LemmySystem
    \<Rightarrow> error option outcome \<times> LemmySystem \<times> NetCall list" where
  "lemmy_Load env sys =
     (let url = lemmy_config sys ''url''
      in if url = INil then (Return None, sys, [])
         else
           (case lemmy_config sys ''url'' of
              IString u \<Rightarrow>
                (case lemmy_New env u of
                   Inl err \<Rightarrow> (Return (Some err), sys\<lparr>lemmy_client := None\<rparr>, [])
                 | Inr cl \<Rightarrow>
                    (let sys' = sys\<lparr>lemmy_client := Some cl\<rparr>
                     in case lemmy_config sys ''credentials'' of
                          IMap kvs \<Rightarrow>
                            (case copy_credentials kvs Map.empty of
                               Panic \<Rightarrow> (Panic, sys', [])
                             | Return creds \<Rightarrow>
                                (let username = lookup_string creds ''username'';
                                     password = lookup_string creds ''password''
                                 in (Return (lemmy_Login env cl Background username password),
                                     sys', [NetLogin username password])))
                        | _ \<Rightarrow> (Panic, sys', [])))
            | _ \<Rightarrow> (Panic, sys, [])))"

section \<open>Notions the properties are stated with\<close>

text \<open>
  The category resolution as the specification words it: all direct categories first,
  then the subcategories of each category in turn, the first match winning, and the
  empty name when nothing matches.
\<close>

definition first_match_name :: "CategoryModel list \<Rightarrow> int \<Rightarrow> string" where
  "first_match_name cats cid =
     (case find (\<lambda>cat. cat_ID cat = cid) cats of
        Some cat \<Rightarrow> cat_Name cat
      | None \<Rightarrow>
         (case find (\<lambda>subcat. cat_ID subcat = cid) (concat (map SubcategoryList cats)) of
            Some subcat \<Rightarrow> cat_Name subcat
          | None \<Rightarrow> []))"

text \<open>
  A credentials entry that \<open>Load\<close> copies without panicking: a
  \<^verbatim>\<open>map[string]interface{}\<close> all of whose values are strings.
\<close>

fun is_IString :: "iface \<Rightarrow> bool" where
  "is_IString (IString s) = True"
| "is_IString v = False"

definition string_valued_map :: "iface \<Rightarrow> bool" where
  "string_valued_map v =
     (case v of IMap kvs \<Rightarrow> list_all (\<lambda>kv. is_IString (snd kv)) kvs | _ \<Rightarrow> False)"

text \<open>\<^verbatim>\<open>lemmy.New\<close> rejects the configured \<^verbatim>\<open>url\<close>: it is a string and the call fails on it.\<close>

definition url_rejected :: "LemmyEnv \<Rightarrow> iface \<Rightarrow> bool" where
  "url_rejected env url =
     (case url of
        IString u \<Rightarrow> (case lemmy_New env u of Inl err \<Rightarrow> True | Inr cl \<Rightarrow> False)
      | _ \<Rightarrow> False)"

text \<open>
  The backend an operation meets when each of its handler calls is answered as the
  handler answers under the context \<open>ctx\<close>, whatever context the operation passes. An
  operation run against it is the operation with \<open>ctx\<close> in the place of the context it
  passes; with the caller's context for \<open>ctx\<close>, that is the propagation the
  specification asks for.
\<close>

definition handlers_under :: "Context \<Rightarrow> Backend \<Rightarrow> Backend" where
  "handlers_under ctx be =
     be\<lparr>Categories_List := (\<lambda>passed. Categories_List be ctx),
        Topics_ListLatest := (\<lambda>passed. Topics_ListLatest be ctx),
        Topics_Show := (\<lambda>passed. Topics_Show be ctx),
        Posts_Create := (\<lambda>passed. Posts_Create be ctx)\<rparr>"

section \<open>Concrete inputs\<close>

definition example_request :: Request where
  "example_request =
     \<lparr>req_Method = ''GET'', req_URL = ''https://forum.example/posts.json'',
      req_Header = [(''Accept'', ''application/json'')], req_Body = []\<rparr>"

definition example_client :: Client where
  "example_client = NewClient \<lparr>Endpoint = ''https://forum.example'', Credentials = Map.empty\<rparr>"

definition empty_PostModel :: PostModel where
  "empty_PostModel = \<lparr>pm_ID = 0, pm_Name = [], pm_CreatedAt = [], pm_Cooked = [], pm_UserID = 0\<rparr>"

definition empty_Response :: Response where
  "empty_Response =
     \<lparr>resp_Type = [], resp_Timestamp = 0, resp_Message = [], resp_Validation = [],
      resp_Post = empty_PostModel, resp_Posts = []\<rparr>"

text \<open>
  A server that answers every request with the given status and body, behind a decoder
  that accepts the empty JSON object (which sets no field) and nothing else.
\<close>

definition example_env :: "int \<Rightarrow> string \<Rightarrow> HttpEnv" where
  "example_env status body =
     \<lparr>FromRequest = Inr,
      httpClient_Do = (\<lambda>retryMax ctx req. Inr \<lparr>StatusCode = status, Body = Inr body\<rparr>),
      json_Unmarshal = (\<lambda>b r. if b = ''{}'' then (None, r) else (Some (ErrDecode b), r))\<rparr>"

text \<open>
  A server whose response has the given status and a body that breaks off while it is
  read.
\<close>

definition broken_body_env :: "int \<Rightarrow> HttpEnv" where
  "broken_body_env status =
     \<lparr>FromRequest = Inr,
      httpClient_Do =
        (\<lambda>retryMax ctx req.
           Inr \<lparr>StatusCode = status, Body = Inl (ErrTransport ''unexpected EOF'')\<rparr>),
      json_Unmarshal = (\<lambda>b r. if b = ''{}'' then (None, r) else (Some (ErrDecode b), r))\<rparr>"

text \<open>
  A backend that honours cancellation: a handler given a cancelled context fails with
  the cancellation error. Otherwise the category tree is the specification's example
  tree, the only topic has the posts \<open>1\<close> (the root) and \<open>2\<close> (a reply), and a created
  post gets the identifier \<open>42\<close>. The converter strips the paragraph tags of the two
  example posts; dates do not parse.
\<close>

definition cancelled :: "Context \<Rightarrow> bool" where
  "cancelled ctx = (case ctx of Background \<Rightarrow> False | WithCancel c \<Rightarrow> c)"

definition example_categories :: "CategoryModel list" where
  "example_categories = [CategoryModel 1 ''A'' [CategoryModel 11 ''A1'' []]]"

definition example_stream :: "PostModel list" where
  "example_stream =
     [\<lparr>pm_ID = 1, pm_Name = ''ann'', pm_CreatedAt = [], pm_Cooked = ''<p>root</p>'', pm_UserID = 7\<rparr>,
      \<lparr>pm_ID = 2, pm_Name = ''bob'', pm_CreatedAt = [], pm_Cooked = ''<p>reply</p>'', pm_UserID = 8\<rparr>]"

definition example_backend :: Backend where
  "example_backend =
     \<lparr>Categories_List = (\<lambda>ctx. if cancelled ctx then Inl ErrCanceled else Inr example_categories),
      Topics_ListLatest = (\<lambda>ctx. if cancelled ctx then Inl ErrCanceled
                                  else Inr \<lparr>Users = [], Topics = []\<rparr>),
      Topics_Show = (\<lambda>ctx topic. if cancelled ctx then Inl ErrCanceled else Inr example_stream),
      Posts_Create = (\<lambda>ctx ap. if cancelled ctx then Inl ErrCanceled
                             else Inr (empty_PostModel\<lparr>pm_ID := 42\<rparr>)),
      ParseAny = (\<lambda>s. Inl (ErrSyntax s)),
      ConvertString = (\<lambda>s. if s = ''<p>root</p>'' then Inr ''root''
                           else if s = ''<p>reply</p>'' then Inr ''reply'' else Inl (ErrSyntax s)),
      Now = UnixNano 0,
      Format_RFC3339Nano = (\<lambda>t. ''1970-01-01T00:00:00Z'')\<rparr>"

definition example_system :: System where
  "example_system = \<lparr>sys_ID = 0, config = (\<lambda>k. INil), client = Some example_client\<rparr>"

definition example_post :: Post where
  "example_post =
     \<lparr>post_ID = ''1'', post_Subject = ''hello'', post_Body = [], post_Type = ''post'',
      post_Pinned = False, post_Closed = False,
      post_CreatedAt = UnixNano 0, post_LastCommentedAt = UnixNano 0,
      post_Author = \<lparr>author_ID = ''7'', author_Name = ''ann''\<rparr>,
      post_Forum = \<lparr>forum_ID = ''11'', forum_Name = ''A1''\<rparr>,
      post_Replies = [], post_SysIDX = 0\<rparr>"

definition example_reply :: "string \<Rightarrow> string \<Rightarrow> Reply" where
  "example_reply rid parent =
     \<lparr>reply_ID = rid, reply_InReplyTo = parent, reply_Body = ''hi'',
      reply_CreatedAt = UnixNano 0,
      reply_Author = \<lparr>author_ID = ''8'', author_Name = ''bob''\<rparr>, reply_SysIDX = 0\<rparr>"

text \<open>
  Configurations with a \<^verbatim>\<open>url\<close> and nothing else, and a lemmy library whose \<^verbatim>\<open>New\<close>
  rejects the address with the unclosed bracket (as \<^verbatim>\<open>url.Parse\<close> does) and accepts
  every other one.
\<close>

definition url_only_config :: "string \<Rightarrow> string \<Rightarrow> iface" where
  "url_only_config u k = (if k = ''url'' then IString u else INil)"

definition example_lemmy :: LemmyEnv where
  "example_lemmy =
     \<lparr>lemmy_New = (\<lambda>u. if u = ''http://[::1'' then Inl (ErrSyntax u) else Inr \<lparr>baseURL = u\<rparr>),
      lemmy_Login = (\<lambda>cl ctx username password. None)\<rparr>"

section \<open>Itoa and Atoi agree\<close>

text \<open>
  The two conversions as modelled are inverse on the 64-bit range: parsing the numeral
  that \<open>Itoa\<close> prints gives the integer back.
\<close>

lemma digit_char_cases:
  "d < 10 \<Longrightarrow> d = 0 \<or> d = 1 \<or> d = 2 \<or> d = 3 \<or> d = 4 \<or> d = 5 \<or> d = 6 \<or> d = 7 \<or> d = 8 \<or> d = (9::nat)"
  by arith

lemma digit_char_digit:
  assumes "d < 10"
  shows "is_digit (digit_char d)" and "int (of_char (digit_char d)) - 48 = int d"
    and "digit_char d \<noteq> CHR ''-''" and "digit_char d \<noteq> CHR ''+''"
  using digit_char_cases [OF assms] by (auto simp: is_digit_def digit_char_def)

lemma digits_value_append:
  "digits_value a (xs @ ys) = digits_value (digits_value a xs) ys"
  by (induction xs arbitrary: a) simp_all

lemma nat_digits_all_digits: "list_all is_digit (nat_digits n)"
  by (induction n rule: nat_digits.induct) (subst nat_digits.simps, simp add: digit_char_digit)

lemma nat_digits_hd:
  "nat_digits n \<noteq> [] \<and> hd (nat_digits n) \<noteq> CHR ''-'' \<and> hd (nat_digits n) \<noteq> CHR ''+''"
proof (induction n rule: nat_digits.induct)
  case (1 n)
  show ?case
  proof (cases "n < 10")
    case True
    then have "nat_digits n = [digit_char n]"
      by (subst nat_digits.simps) simp
    with True show ?thesis
      by (simp add: digit_char_digit)
  next
    case False
    then have "nat_digits n = nat_digits (n div 10) @ [digit_char (n mod 10)]"
      by (subst nat_digits.simps) simp
    with False "1.IH" show ?thesis
      by simp
  qed
qed

lemma digits_value_nat_digits: "digits_value 0 (nat_digits n) = int n"
proof (induction n rule: nat_digits.induct)
  case (1 n)
  show ?case
  proof (cases "n < 10")
    case True
    then have "nat_digits n = [digit_char n]"
      by (subst nat_digits.simps) simp
    with True show ?thesis
      by (simp add: digit_char_digit)
  next
    case False
    then have "nat_digits n = nat_digits (n div 10) @ [digit_char (n mod 10)]"
      by (subst nat_digits.simps) simp
    moreover have "int (n div 10) * 10 + int (n mod 10) = int n"
      by (simp add: zdiv_int zmod_int)
    ultimately show ?thesis
      using False "1.IH" by (simp add: digits_value_append digit_char_digit)
  qed
qed

lemma Atoi_unsigned:
  assumes "s \<noteq> []" and "hd s \<noteq> CHR ''-''" and "hd s \<noteq> CHR ''+''" and "list_all is_digit s"
    and "digits_value 0 s < 2 ^ 63" and "0 \<le> digits_value 0 s"
  shows "Atoi s = Inr (digits_value 0 s)"
proof (cases s)
  case Nil
  with assms(1) show ?thesis by simp
next
  case (Cons ch r)
  have "\<not> list_ex (\<lambda>ch. \<not> is_digit ch) s"
    using assms(4) by (simp add: list_ex_iff list_all_iff)
  then show ?thesis
    using assms Cons unfolding Atoi_def Let_def by auto
qed

lemma Atoi_negative:
  assumes "s \<noteq> []" and "list_all is_digit s" and "digits_value 0 s \<le> 2 ^ 63"
    and "0 \<le> digits_value 0 s"
  shows "Atoi (CHR ''-'' # s) = Inr (- digits_value 0 s)"
proof -
  have "\<not> list_ex (\<lambda>ch. \<not> is_digit ch) s"
    using assms(2) by (simp add: list_ex_iff list_all_iff)
  then show ?thesis
    using assms unfolding Atoi_def Let_def by auto
qed

lemma Atoi_Itoa: "- (2 ^ 63) \<le> i \<Longrightarrow> i < 2 ^ 63 \<Longrightarrow> Atoi (Itoa i) = Inr i"
proof (cases "i < 0")
  case True
  assume "- (2 ^ 63) \<le> i"
  with True show ?thesis
    using Atoi_negative [of "nat_digits (nat (- i))"] nat_digits_hd [of "nat (- i)"]
      nat_digits_all_digits [of "nat (- i)"]
    by (simp add: Itoa_def digits_value_nat_digits)
next
  case False
  assume "i < 2 ^ 63"
  with False show ?thesis
    using Atoi_unsigned [of "nat_digits (nat i)"] nat_digits_hd [of "nat i"]
      nat_digits_all_digits [of "nat i"]
    by (simp add: Itoa_def digits_value_nat_digits)
qed

section \<open>The client: decoding, status and the typed error\<close>

text \<open>
  \<open>Do\<close> once the response is in hand and its body has been read: the decode step runs
  only for a destination that is not nil, and the status code is looked at after it.
\<close>

lemma Do_after_read:
  assumes "FromRequest env req = Inr rreq"
    and "httpClient_Do env (RetryMax c) ctx rreq = Inr res"
    and "Body res = Inr body"
  shows "Do env c ctx req content =
     (case content of
        None \<Rightarrow>
          if StatusCode res < 200 \<or> StatusCode res > 204 then (Panic, None)
          else (Return None, None)
      | Some r \<Rightarrow>
         (case json_Unmarshal env body r of
            (Some e, r') \<Rightarrow> (Return (Some e), Some r')
          | (None, r') \<Rightarrow>
             if StatusCode res < 200 \<or> StatusCode res > 204
             then (Return (Some (RequestError r' ''Non-2xx status code'')), Some r')
             else (Return None, Some r')))"
  using assms by (simp add: Do_def split: option.split prod.split)

lemma Do_transport_error:
  assumes "FromRequest env req = Inr rreq"
    and "httpClient_Do env (RetryMax c) ctx rreq = Inl err"
  shows "Do env c ctx req content = (Return (Some err), content)"
  using assms by (simp add: Do_def)

lemma NewClient_RetryMax: "RetryMax (NewClient cc) = 3"
  by (simp add: NewClient_def)




text \<open>
  C8, as amended. For a call of \<open>Do\<close> with a nil destination in which the retrying
  client hands back a response with a status code outside [200,204] and the body of
  that response is read: building the \<open>RequestError\<close> dereferences the nil destination,
  so the call panics and returns no error. With a destination that is not nil, the same
  branch (reached when the body has decoded) returns a \<open>RequestError\<close>.
\<close>

theorem Do_nil_destination_panics:
  assumes "FromRequest env req = Inr rreq"
    and "httpClient_Do env (RetryMax c) ctx rreq = Inr res"
    and "Body res = Inr body"
    and "StatusCode res < 200 \<or> 204 < StatusCode res"
  shows "Do env c ctx req None = (Panic, None)
    \<and> (\<forall>r r'. json_Unmarshal env body r = (None, r') \<longrightarrow>
          Do env c ctx req (Some r)
            = (Return (Some (RequestError r' ''Non-2xx status code'')), Some r'))"
  using assms(4) by (simp add: Do_after_read [OF assms(1-3)])

theorem Do_nil_destination_panics_witness:
  "Do (example_env 400 ''{}'') example_client (WithCancel False) example_request None
     = (Panic, None)
   \<and> Do (example_env 400 ''{}'') example_client (WithCancel False) example_request
        (Some empty_Response)
     = (Return (Some (RequestError empty_Response ''Non-2xx status code'')), Some empty_Response)"
proof -
  have a: "FromRequest (example_env 400 ''{}'') example_request = Inr example_request"
    by (simp add: example_env_def)
  have b: "httpClient_Do (example_env 400 ''{}'') (RetryMax example_client) (WithCancel False)
      example_request = Inr \<lparr>StatusCode = 400, Body = Inr ''{}''\<rparr>"
    by (simp add: example_env_def)
  have c: "Body \<lparr>StatusCode = 400, Body = Inr ''{}''\<rparr> = Inr ''{}''"
    by simp
  have d: "StatusCode \<lparr>StatusCode = 400, Body = Inr ''{}''\<rparr> < 200
      \<or> 204 < StatusCode \<lparr>StatusCode = 400, Body = Inr ''{}''\<rparr>"
    by simp
  have e: "json_Unmarshal (example_env 400 ''{}'') ''{}'' empty_Response = (None, empty_Response)"
    by (simp add: example_env_def)
  show ?thesis
    using Do_nil_destination_panics [OF a b c d] e by blast
qed

text \<open>
  C8 as stated has every call with a nil destination and a response status outside
  [200,204] panic. A response with the status 404 is in hand, the destination is nil,
  and reading the body fails: \<open>Do\<close> returns the read error ahead of the branch and does
  not panic.
\<close>

theorem Do_nil_destination_read_error_counterexample:
  "httpClient_Do (broken_body_env 404) (RetryMax example_client) Background example_request
     = Inr \<lparr>StatusCode = 404, Body = Inl (ErrTransport ''unexpected EOF'')\<rparr>
   \<and> Do (broken_body_env 404) example_client Background example_request None
     = (Return (Some (ErrTransport ''unexpected EOF'')), None)"
  by (simp add: Do_def broken_body_env_def)

section \<open>ListPosts: resolving the forum name\<close>

lemma find_append: "find P (xs @ ys) = (case find P xs of Some x \<Rightarrow> Some x | None \<Rightarrow> find P ys)"
  by (induction xs) auto

lemma find_Some_member: "find P xs = Some x \<Longrightarrow> x \<in> set xs \<and> P x"
  by (induction xs) (auto split: if_splits)

lemma find_None_distinct:
  "distinct (map f (xs @ ys)) \<Longrightarrow> find (\<lambda>x. f x = a) xs = Some x \<Longrightarrow> find (\<lambda>y. f y = a) ys = None"
proof -
  assume d: "distinct (map f (xs @ ys))" and s: "find (\<lambda>x. f x = a) xs = Some x"
  from s have "x \<in> set xs" and "f x = a"
    using find_Some_member [of "\<lambda>x. f x = a" xs x] by simp_all
  with d have "\<forall>y\<in>set ys. f y \<noteq> a"
    by auto
  then show ?thesis
    by (simp add: find_None_iff)
qed

text \<open>The inner loop finds the first matching subcategory of one category.\<close>

lemma subcategory_scan_find:
  "subcategory_scan subcats cid forumName =
     (case find (\<lambda>subcat. cat_ID subcat = cid) subcats of
        Some subcat \<Rightarrow> cat_Name subcat | None \<Rightarrow> forumName)"
  by (induction subcats) auto

text \<open>A direct category match wins over every subcategory, wherever it stands.\<close>

lemma category_scan_direct:
  "find (\<lambda>cat. cat_ID cat = cid) cats = Some cat \<Longrightarrow> category_scan cats cid forumName = cat_Name cat"
  by (induction cats arbitrary: forumName) (auto split: if_splits)

text \<open>An identifier that no category and no subcategory carries yields the empty name.\<close>

lemma category_scan_unmatched:
  "find (\<lambda>cat. cat_ID cat = cid) cats = None \<Longrightarrow>
   find (\<lambda>subcat. cat_ID subcat = cid) (concat (map SubcategoryList cats)) = None \<Longrightarrow>
   category_scan cats cid forumName = forumName"
  by (induction cats arbitrary: forumName)
     (auto simp: subcategory_scan_find find_append split: if_splits option.splits)

lemma category_scan_distinct:
  "find (\<lambda>cat. cat_ID cat = cid) cats = None \<Longrightarrow>
   distinct (map cat_ID (concat (map SubcategoryList cats))) \<Longrightarrow>
   category_scan cats cid forumName =
     (case find (\<lambda>subcat. cat_ID subcat = cid) (concat (map SubcategoryList cats)) of
        Some subcat \<Rightarrow> cat_Name subcat | None \<Rightarrow> forumName)"
proof (induction cats arbitrary: forumName)
  case Nil
  then show ?case by simp
next
  case (Cons cat cats)
  from Cons.prems have nd: "cat_ID cat \<noteq> cid" and nf: "find (\<lambda>cat. cat_ID cat = cid) cats = None"
    by (auto split: if_splits)
  from Cons.prems have d: "distinct (map cat_ID (concat (map SubcategoryList cats)))"
    by simp
  show ?case
  proof (cases "find (\<lambda>subcat. cat_ID subcat = cid) (SubcategoryList cat)")
    case None
    then show ?thesis
      using nd Cons.IH [OF nf d] by (simp add: find_append subcategory_scan_find)
  next
    case (Some s)
    have "find (\<lambda>subcat. cat_ID subcat = cid) (concat (map SubcategoryList cats)) = None"
      using find_None_distinct [of cat_ID "SubcategoryList cat" "concat (map SubcategoryList cats)" cid s]
        Cons.prems(2) Some by simp
    then show ?thesis
      using nd Some category_scan_unmatched [OF nf] by (simp add: find_append subcategory_scan_find)
  qed
qed

text \<open>
  On a tree whose subcategory identifiers are pairwise distinct, the loops resolve the
  name as the specification says.
\<close>

lemma forumName_first_match:
  "distinct (map cat_ID (concat (map SubcategoryList cats))) \<Longrightarrow>
   forumName_of cats cid = first_match_name cats cid"
  by (cases "find (\<lambda>cat. cat_ID cat = cid) cats")
     (simp_all add: forumName_of_def first_match_name_def category_scan_distinct category_scan_direct)

text \<open>The specification's example tree: \<open>11\<close> resolves to \<open>A1\<close>, \<open>99\<close> to the empty name.\<close>

lemma forumName_spec_example:
  "forumName_of example_categories 11 = ''A1'' \<and> forumName_of example_categories 99 = []"
  by (simp add: forumName_of_def example_categories_def)

text \<open>The post that \<open>ListPosts\<close> makes of a topic carries the name the two loops resolve.\<close>

lemma topic_post_forum:
  "topic_post be sys cats users i = Return p \<Longrightarrow>
   post_Forum p = \<lparr>forum_ID = Itoa (topic_CategoryID i),
                   forum_Name = forumName_of cats (topic_CategoryID i)\<rparr>"
  by (auto simp: topic_post_def split: list.splits)

text \<open>
  C3. The claim is that, for every category tree, the first match wins. On a tree in
  which the subcategories of two categories carry the identifier \<open>11\<close>, the loops yield
  the name from the later category (\<open>B1\<close>), where the first match is \<open>A1\<close>: after a
  subcategory match the inner \<^verbatim>\<open>break\<close> leaves only the inner loop, and the outer loop
  goes on and overwrites the name.
\<close>

theorem forumName_later_subcategory_wins:
  "forumName_of [CategoryModel 1 ''A'' [CategoryModel 11 ''A1'' []],
                 CategoryModel 2 ''B'' [CategoryModel 11 ''B1'' []]] 11 = ''B1''
   \<and> first_match_name [CategoryModel 1 ''A'' [CategoryModel 11 ''A1'' []],
                 CategoryModel 2 ''B'' [CategoryModel 11 ''B1'' []]] 11 = ''A1''"
  by (simp add: forumName_of_def first_match_name_def)

section \<open>LoadPost: the thread\<close>

lemma stream_reply_post_ID:
  "post_ID p' = post_ID p \<Longrightarrow> stream_reply be sys p' i = stream_reply be sys p i"
  by (simp add: stream_reply_def)

lemma stream_loop_replies:
  "0 < idx \<Longrightarrow> stream_loop be sys idx posts p =
     p\<lparr>post_Replies := post_Replies p @ map (stream_reply be sys p) posts\<rparr>"
proof (induction posts arbitrary: idx p)
  case Nil
  then show ?case by simp
next
  case (Cons i posts)
  have "stream_reply be sys (p\<lparr>post_Replies := post_Replies p @ [stream_reply be sys p i]\<rparr>)
      = stream_reply be sys p"
    by (rule ext) (simp add: stream_reply_def)
  with Cons show ?case by simp
qed

text \<open>
  C5. For a post stream that is not empty, \<open>LoadPost\<close> sets the body of the post it is
  given from the first item's converted content and appends one reply per later item
  to the post's replies, in the order of the stream.
\<close>

theorem LoadPost_thread:
  assumes "client sys = Some c"
    and "Topics_Show be Background (post_ID p) = Inr (i # posts)"
  shows "LoadPost be sys p =
     (Return None,
      p\<lparr>post_Body := cooked_markdown be i,
        post_Replies := post_Replies p @ map (stream_reply be sys p) posts\<rparr>)"
proof -
  have "stream_reply be sys (p\<lparr>post_Body := cooked_markdown be i\<rparr>) = stream_reply be sys p"
    by (rule ext) (simp add: stream_reply_def)
  then show ?thesis
    using assms by (simp add: LoadPost_def stream_loop_replies)
qed

text \<open>The specification's example thread: a root post and one reply.\<close>

theorem LoadPost_thread_witness:
  "LoadPost example_backend example_system example_post =
     (Return None,
      example_post\<lparr>post_Body := ''root'',
        post_Replies :=
          [\<lparr>reply_ID = ''2'', reply_InReplyTo = ''1'', reply_Body = ''reply'',
            reply_CreatedAt = UnixNano 0,
            reply_Author = \<lparr>author_ID = ''8'', author_Name = ''bob''\<rparr>, reply_SysIDX = 0\<rparr>]\<rparr>)"
proof -
  have a: "client example_system = Some example_client"
    by (simp add: example_system_def)
  have b: "Topics_Show example_backend Background (post_ID example_post)
      = Inr (hd example_stream # tl example_stream)"
    by (simp add: example_backend_def example_stream_def cancelled_def)
  show ?thesis
    using LoadPost_thread [OF a b]
    by (simp add: example_stream_def example_post_def example_backend_def example_system_def
        cooked_markdown_def stream_reply_def parse_or_now_def Itoa_def nat_digits.simps digit_char_def)
qed

section \<open>CreateReply: the request it builds\<close>

lemma Atoi_minus_one: "Atoi ''-1'' = Inr (- 1)"
  by (simp add: Atoi_def is_digit_def)

text \<open>
  C4, as amended. For a reply whose \<^verbatim>\<open>ID\<close> parses as the integer \<open>n\<close>: with an empty
  \<^verbatim>\<open>InReplyTo\<close> the request has \<^verbatim>\<open>TopicID\<close> \<open>n\<close> and no \<^verbatim>\<open>ReplyToPostNumber\<close> (the field
  keeps its zero value); with an \<^verbatim>\<open>InReplyTo\<close> that is not empty and parses as an integer
  \<open>t\<close> other than \<open>-1\<close>, the request has \<^verbatim>\<open>TopicID\<close> \<open>t\<close> and \<^verbatim>\<open>ReplyToPostNumber\<close> \<open>n\<close>; and
  whenever \<open>CreateReply\<close> succeeds, the reply's \<^verbatim>\<open>ID\<close> is the decimal numeral of the
  identifier the backend assigned to the post created from that request.
\<close>

theorem CreateReply_request:
  assumes "Atoi (reply_ID r) = Inr n"
  shows "(reply_InReplyTo r = [] \<longrightarrow>
            reply_request be r =
              Inr \<lparr>cp_Title = [], cp_Raw = reply_Body r, cp_Category = 0, cp_TopicID = n,
                   cp_ReplyToPostNumber = 0, cp_CreatedAt = Format_RFC3339Nano be (Now be)\<rparr>)
       \<and> (\<forall>t. reply_InReplyTo r \<noteq> [] \<and> Atoi (reply_InReplyTo r) = Inr t \<and> t \<noteq> - 1 \<longrightarrow>
            reply_request be r =
              Inr \<lparr>cp_Title = [], cp_Raw = reply_Body r, cp_Category = 0, cp_TopicID = t,
                   cp_ReplyToPostNumber = n, cp_CreatedAt = Format_RFC3339Nano be (Now be)\<rparr>)
       \<and> (\<forall>r'. CreateReply be sys r = (Return None, r') \<longrightarrow>
            (\<exists>ap cp. reply_request be r = Inr ap \<and> Posts_Create be Background ap = Inr cp
               \<and> r' = r\<lparr>reply_ID := Itoa (pm_ID cp)\<rparr>))"
  using assms
  by (auto simp: reply_request_def CreateReply_def split: sum.splits option.splits if_splits)

text \<open>
  The specification's two examples, \<open>{ID: 5, InReplyTo: empty}\<close> and
  \<open>{ID: 7, InReplyTo: 5}\<close>, against a backend that assigns the identifier \<open>42\<close>.
\<close>

theorem CreateReply_request_witness:
  "reply_request example_backend (example_reply ''5'' []) =
     Inr \<lparr>cp_Title = [], cp_Raw = ''hi'', cp_Category = 0, cp_TopicID = 5,
          cp_ReplyToPostNumber = 0, cp_CreatedAt = ''1970-01-01T00:00:00Z''\<rparr>
   \<and> reply_request example_backend (example_reply ''7'' ''5'') =
     Inr \<lparr>cp_Title = [], cp_Raw = ''hi'', cp_Category = 0, cp_TopicID = 5,
          cp_ReplyToPostNumber = 7, cp_CreatedAt = ''1970-01-01T00:00:00Z''\<rparr>
   \<and> CreateReply example_backend example_system (example_reply ''7'' ''5'')
     = (Return None, example_reply ''42'' ''5'')"
proof -
  have a: "Atoi (reply_ID (example_reply ''5'' [])) = Inr 5"
    by (simp add: example_reply_def Atoi_def is_digit_def)
  have b: "Atoi (reply_ID (example_reply ''7'' ''5'')) = Inr 7"
    by (simp add: example_reply_def Atoi_def is_digit_def)
  have c: "reply_InReplyTo (example_reply ''5'' []) = []"
    by (simp add: example_reply_def)
  have d: "reply_InReplyTo (example_reply ''7'' ''5'') \<noteq> []
      \<and> Atoi (reply_InReplyTo (example_reply ''7'' ''5'')) = Inr 5 \<and> (5::int) \<noteq> - 1"
    by (simp add: example_reply_def Atoi_def is_digit_def)
  have e: "CreateReply example_backend example_system (example_reply ''7'' ''5'')
      = (Return None, example_reply ''42'' ''5'')"
    by (simp add: CreateReply_def reply_request_def example_reply_def example_backend_def
        example_system_def cancelled_def empty_PostModel_def Atoi_def is_digit_def Itoa_def
        nat_digits.simps digit_char_def)
  have f: "reply_Body (example_reply x y) = ''hi''" for x y
    by (simp add: example_reply_def)
  have g: "Format_RFC3339Nano example_backend (Now example_backend) = ''1970-01-01T00:00:00Z''"
    by (simp add: example_backend_def)
  from CreateReply_request [OF a, of example_backend example_system] c
  have 1: "reply_request example_backend (example_reply ''5'' []) =
     Inr \<lparr>cp_Title = [], cp_Raw = ''hi'', cp_Category = 0, cp_TopicID = 5,
          cp_ReplyToPostNumber = 0, cp_CreatedAt = ''1970-01-01T00:00:00Z''\<rparr>"
    by (simp add: f g)
  from CreateReply_request [OF b, of example_backend example_system] d
  have 2: "reply_request example_backend (example_reply ''7'' ''5'') =
     Inr \<lparr>cp_Title = [], cp_Raw = ''hi'', cp_Category = 0, cp_TopicID = 5,
          cp_ReplyToPostNumber = 7, cp_CreatedAt = ''1970-01-01T00:00:00Z''\<rparr>"
    by (simp add: f g)
  from 1 2 e show ?thesis by simp
qed

text \<open>
  C4 as stated covers every \<^verbatim>\<open>InReplyTo\<close> that is not empty and parses as an integer.
  \<open>-1\<close> is one, and there the request is not \<open>TopicID = -1, ReplyToPostNumber = 7\<close> but
  the direct reply \<open>TopicID = 7\<close> with no \<^verbatim>\<open>ReplyToPostNumber\<close>.
\<close>

theorem CreateReply_sentinel_counterexample:
  "Atoi ''7'' = Inr 7 \<and> Atoi ''-1'' = Inr (- 1)
   \<and> reply_request example_backend (example_reply ''7'' ''-1'') =
     Inr \<lparr>cp_Title = [], cp_Raw = ''hi'', cp_Category = 0, cp_TopicID = 7,
          cp_ReplyToPostNumber = 0, cp_CreatedAt = ''1970-01-01T00:00:00Z''\<rparr>"
  by (simp add: reply_request_def example_reply_def example_backend_def Atoi_def is_digit_def)

text \<open>
  C10. For a reply whose \<^verbatim>\<open>InReplyTo\<close> is the string \<open>-1\<close> (and whose \<^verbatim>\<open>ID\<close> parses as
  \<open>n\<close>), \<open>CreateReply\<close> parses it to the value that stands for "no parent" and builds
  the direct reply to the topic: \<^verbatim>\<open>TopicID\<close> \<open>n\<close>, no \<^verbatim>\<open>ReplyToPostNumber\<close>. The request
  and the outcome are those of the same reply with an empty \<^verbatim>\<open>InReplyTo\<close>.
\<close>

theorem CreateReply_minus_one:
  assumes "reply_InReplyTo r = ''-1''"
    and "Atoi (reply_ID r) = Inr n"
  shows "reply_request be r =
           Inr \<lparr>cp_Title = [], cp_Raw = reply_Body r, cp_Category = 0, cp_TopicID = n,
                cp_ReplyToPostNumber = 0, cp_CreatedAt = Format_RFC3339Nano be (Now be)\<rparr>
       \<and> reply_request be r = reply_request be (r\<lparr>reply_InReplyTo := []\<rparr>)
       \<and> fst (CreateReply be sys r) = fst (CreateReply be sys (r\<lparr>reply_InReplyTo := []\<rparr>))"
proof -
  have a: "reply_request be r =
           Inr \<lparr>cp_Title = [], cp_Raw = reply_Body r, cp_Category = 0, cp_TopicID = n,
                cp_ReplyToPostNumber = 0, cp_CreatedAt = Format_RFC3339Nano be (Now be)\<rparr>"
    using assms by (simp add: reply_request_def Atoi_minus_one)
  have b: "reply_request be (r\<lparr>reply_InReplyTo := []\<rparr>) = reply_request be r"
    using assms by (simp add: reply_request_def Atoi_minus_one)
  have c: "fst (CreateReply be sys r) = fst (CreateReply be sys (r\<lparr>reply_InReplyTo := []\<rparr>))"
    by (simp add: CreateReply_def b split: sum.split option.split)
  from a b c show ?thesis by simp
qed

theorem CreateReply_minus_one_witness:
  "reply_request example_backend (example_reply ''7'' ''-1'') =
           Inr \<lparr>cp_Title = [], cp_Raw = ''hi'', cp_Category = 0, cp_TopicID = 7,
                cp_ReplyToPostNumber = 0, cp_CreatedAt = ''1970-01-01T00:00:00Z''\<rparr>
   \<and> reply_request example_backend (example_reply ''7'' ''-1'')
     = reply_request example_backend (example_reply ''7'' [])
   \<and> fst (CreateReply example_backend example_system (example_reply ''7'' ''-1''))
     = fst (CreateReply example_backend example_system (example_reply ''7'' []))"
proof -
  have a: "reply_InReplyTo (example_reply ''7'' ''-1'') = ''-1''"
    by (simp add: example_reply_def)
  have b: "Atoi (reply_ID (example_reply ''7'' ''-1'')) = Inr 7"
    by (simp add: example_reply_def Atoi_def is_digit_def)
  have c: "(example_reply ''7'' ''-1'')\<lparr>reply_InReplyTo := []\<rparr> = example_reply ''7'' []"
    by (simp add: example_reply_def)
  have d: "reply_Body (example_reply ''7'' ''-1'') = ''hi''"
    by (simp add: example_reply_def)
  have e: "Format_RFC3339Nano example_backend (Now example_backend) = ''1970-01-01T00:00:00Z''"
    by (simp add: example_backend_def)
  show ?thesis
    by (rule CreateReply_minus_one [OF a b, of example_backend example_system, unfolded c d e])
qed

section \<open>Load\<close>

text \<open>
  C6. For a configuration without the \<^verbatim>\<open>url\<close> key, \<open>Load\<close> of either adapter returns no
  error, makes no network call and leaves the adapter as it was: no client is
  constructed.
\<close>

theorem Load_without_url:
  "(config sys ''url'' = INil \<longrightarrow> Load sys = (Return None, sys, []))
   \<and> (lemmy_config lsys ''url'' = INil \<longrightarrow> lemmy_Load env lsys = (Return None, lsys, []))"
  by (simp add: Load_def lemmy_Load_def)

theorem Load_without_url_witness:
  "Load \<lparr>sys_ID = 0, config = (\<lambda>k. INil), client = None\<rparr>
     = (Return None, \<lparr>sys_ID = 0, config = (\<lambda>k. INil), client = None\<rparr>, [])
   \<and> lemmy_Load example_lemmy \<lparr>lemmy_config = (\<lambda>k. INil), lemmy_client = None\<rparr>
     = (Return None, \<lparr>lemmy_config = (\<lambda>k. INil), lemmy_client = None\<rparr>, [])"
  using Load_without_url [of "\<lparr>sys_ID = 0, config = (\<lambda>k. INil), client = None\<rparr>"
      "\<lparr>lemmy_config = (\<lambda>k. INil), lemmy_client = None\<rparr>" example_lemmy]
  by simp

lemma copy_credentials_Panic:
  "copy_credentials kvs creds = Panic \<longleftrightarrow> \<not> list_all (\<lambda>kv. is_IString (snd kv)) kvs"
proof (induction kvs arbitrary: creds)
  case Nil
  then show ?case by simp
next
  case (Cons kv kvs)
  obtain k v where kv: "kv = (k, v)" by (cases kv)
  show ?case
    using Cons.IH by (cases v) (simp_all add: kv)
qed

lemma copy_credentials_bad:
  "\<not> list_all (\<lambda>kv. is_IString (snd kv)) kvs \<Longrightarrow> copy_credentials kvs creds = Panic"
  by (simp add: copy_credentials_Panic)

lemma Load_no_error: "fst (Load sys) = Return None \<or> fst (Load sys) = Panic"
  by (simp add: Load_def Let_def split: iface.split outcome.split)

text \<open>
  C9, as amended. The discourse adapter's \<open>Load\<close> panics on every configuration whose
  \<^verbatim>\<open>url\<close> is present and whose \<^verbatim>\<open>credentials\<close> entry is absent or is not a map of
  strings, and it never returns an error. The lemmy adapter's \<open>Load\<close> panics on such a
  configuration unless \<^verbatim>\<open>lemmy.New\<close> rejects the \<^verbatim>\<open>url\<close>: it calls \<^verbatim>\<open>lemmy.New\<close> before
  it reads the credentials, and returns the error of that call.
\<close>

theorem Load_unchecked_assertions:
  "(config sys ''url'' \<noteq> INil \<and> \<not> string_valued_map (config sys ''credentials'')
      \<longrightarrow> fst (Load sys) = Panic)
   \<and> (\<forall>err. fst (Load sys) \<noteq> Return (Some err))
   \<and> (lemmy_config lsys ''url'' \<noteq> INil \<and> \<not> url_rejected env (lemmy_config lsys ''url'')
         \<and> \<not> string_valued_map (lemmy_config lsys ''credentials'')
      \<longrightarrow> fst (lemmy_Load env lsys) = Panic)
   \<and> (\<forall>u err. lemmy_config lsys ''url'' = IString u \<and> lemmy_New env u = Inl err
      \<longrightarrow> fst (lemmy_Load env lsys) = Return (Some err))"
proof (intro conjI allI impI)
  assume "config sys ''url'' \<noteq> INil \<and> \<not> string_valued_map (config sys ''credentials'')"
  then show "fst (Load sys) = Panic"
    by (auto simp: Load_def Let_def string_valued_map_def copy_credentials_bad
        split: iface.splits outcome.splits)
next
  fix err
  show "fst (Load sys) \<noteq> Return (Some err)"
    using Load_no_error [of sys] by auto
next
  assume "lemmy_config lsys ''url'' \<noteq> INil \<and> \<not> url_rejected env (lemmy_config lsys ''url'')
         \<and> \<not> string_valued_map (lemmy_config lsys ''credentials'')"
  then show "fst (lemmy_Load env lsys) = Panic"
    by (auto simp: lemmy_Load_def url_rejected_def string_valued_map_def copy_credentials_bad
        Let_def split: iface.splits outcome.splits sum.splits)
next
  fix u err
  assume "lemmy_config lsys ''url'' = IString u \<and> lemmy_New env u = Inl err"
  then show "fst (lemmy_Load env lsys) = Return (Some err)"
    by (simp add: lemmy_Load_def)
qed

theorem Load_unchecked_assertions_witness:
  "fst (Load \<lparr>sys_ID = 0, config = url_only_config ''https://forum.example'', client = None\<rparr>)
     = Panic
   \<and> fst (lemmy_Load example_lemmy
        \<lparr>lemmy_config = url_only_config ''https://forum.example'', lemmy_client = None\<rparr>) = Panic"
proof -
  let ?sys = "\<lparr>sys_ID = 0, config = url_only_config ''https://forum.example'', client = None\<rparr>"
  let ?lsys = "\<lparr>lemmy_config = url_only_config ''https://forum.example'', lemmy_client = None\<rparr>"
  have a: "config ?sys ''url'' \<noteq> INil \<and> \<not> string_valued_map (config ?sys ''credentials'')"
    by (simp add: url_only_config_def string_valued_map_def)
  have b: "lemmy_config ?lsys ''url'' \<noteq> INil
      \<and> \<not> url_rejected example_lemmy (lemmy_config ?lsys ''url'')
      \<and> \<not> string_valued_map (lemmy_config ?lsys ''credentials'')"
    by (simp add: url_only_config_def string_valued_map_def url_rejected_def example_lemmy_def)
  show ?thesis
    using Load_unchecked_assertions [of ?sys ?lsys example_lemmy] a b by blast
qed

text \<open>
  C9 as stated has \<open>Load\<close> panic, and not return an error, on every configuration with
  a \<^verbatim>\<open>url\<close> and without \<^verbatim>\<open>credentials\<close>. The lemmy adapter's \<open>Load\<close> returns an error on
  one whose \<^verbatim>\<open>url\<close> the library rejects.
\<close>

theorem lemmy_Load_error_counterexample:
  "lemmy_config \<lparr>lemmy_config = url_only_config ''http://[::1'', lemmy_client = None\<rparr> ''url''
     = IString ''http://[::1''
   \<and> lemmy_config \<lparr>lemmy_config = url_only_config ''http://[::1'', lemmy_client = None\<rparr>
        ''credentials'' = INil
   \<and> lemmy_Load example_lemmy \<lparr>lemmy_config = url_only_config ''http://[::1'', lemmy_client = None\<rparr>
     = (Return (Some (ErrSyntax ''http://[::1'')),
        \<lparr>lemmy_config = url_only_config ''http://[::1'', lemmy_client = None\<rparr>, [])"
  by (simp add: lemmy_Load_def url_only_config_def example_lemmy_def)

section \<open>The context of the domain operations\<close>

lemma handlers_under_fields:
  "Categories_List (handlers_under ctx be) passed = Categories_List be ctx"
  "Topics_ListLatest (handlers_under ctx be) passed = Topics_ListLatest be ctx"
  "Topics_Show (handlers_under ctx be) passed = Topics_Show be ctx"
  "Posts_Create (handlers_under ctx be) passed = Posts_Create be ctx"
  "ParseAny (handlers_under ctx be) = ParseAny be"
  "ConvertString (handlers_under ctx be) = ConvertString be"
  "Now (handlers_under ctx be) = Now be"
  "Format_RFC3339Nano (handlers_under ctx be) = Format_RFC3339Nano be"
  by (simp_all add: handlers_under_def)

lemma parse_or_now_handlers_under: "parse_or_now (handlers_under ctx be) = parse_or_now be"
  by (rule ext) (simp add: parse_or_now_def handlers_under_fields split: sum.split)

lemma topic_post_handlers_under: "topic_post (handlers_under ctx be) = topic_post be"
  by (intro ext) (simp add: topic_post_def parse_or_now_handlers_under split: list.split)

lemma topics_loop_handlers_under:
  "topics_loop (handlers_under ctx be) sys cats users topics models
     = topics_loop be sys cats users topics models"
  by (induction topics arbitrary: models)
     (simp_all add: topic_post_handlers_under split: outcome.split)

lemma stream_reply_handlers_under: "stream_reply (handlers_under ctx be) = stream_reply be"
  by (intro ext)
     (simp add: stream_reply_def cooked_markdown_def parse_or_now_handlers_under
        handlers_under_fields split: sum.split)

lemma stream_loop_handlers_under:
  "stream_loop (handlers_under ctx be) sys idx posts p = stream_loop be sys idx posts p"
  by (induction posts arbitrary: idx p)
     (simp_all add: stream_reply_handlers_under cooked_markdown_def handlers_under_fields
        split: sum.split)

text \<open>
  \<open>LoadPost\<close> against \<open>handlers_under ctx\<close> is the source's \<open>LoadPost\<close> with \<open>ctx\<close> where the
  source passes the background context.
\<close>

lemma LoadPost_handlers_under:
  "LoadPost (handlers_under ctx be) sys p =
     (case client sys of
        None \<Rightarrow> (Panic, p)
      | Some c \<Rightarrow>
         (case Topics_Show be ctx (post_ID p) of
            Inl err \<Rightarrow> (Return (Some err), p)
          | Inr posts \<Rightarrow> (Return None, stream_loop be sys 0 posts p)))"
  by (simp add: LoadPost_def stream_loop_handlers_under handlers_under_fields
      split: sum.split option.split)

text \<open>
  C7, as amended. Each domain operation (\<open>ListPosts\<close>, \<open>LoadPost\<close>, \<open>CreatePost\<close>,
  \<open>CreateReply\<close>) makes every call to a service handler under the background context,
  not under a context of the caller: what the operation returns and what it does to
  the caller's post or reply is exactly what it returns and does when each handler
  answers as it does under the background context, whatever the handlers would answer
  under any other context, a cancelled one included.
\<close>

theorem operations_under_Background:
  "ListPosts (handlers_under Background be) sys = ListPosts be sys
   \<and> LoadPost (handlers_under Background be) sys p = LoadPost be sys p
   \<and> CreatePost (handlers_under Background be) sys p = CreatePost be sys p
   \<and> CreateReply (handlers_under Background be) sys r = CreateReply be sys r"
  by (simp add: ListPosts_def LoadPost_def CreatePost_def CreateReply_def reply_request_def
      topics_loop_handlers_under stream_loop_handlers_under handlers_under_fields
      split: sum.split option.split outcome.split)

text \<open>
  C7 as stated has the caller's context reach the network call, so that an operation
  whose context is cancelled returns a cancellation error and leaves the caller's
  object alone. Against a backend that honours cancellation, \<open>LoadPost\<close> with its
  handler call under a cancelled context does so: it returns the cancellation error
  and the post as it was. The source's \<open>LoadPost\<close>, which has no context to be given,
  returns no error against the same backend and has overwritten the post's body and
  appended a reply: it is not the operation the claim describes.
\<close>

theorem operations_cancellation_counterexample:
  "LoadPost (handlers_under (WithCancel True) example_backend) example_system example_post
     = (Return (Some ErrCanceled), example_post)
   \<and> LoadPost example_backend example_system example_post
     = (Return None,
        example_post\<lparr>post_Body := ''root'',
          post_Replies :=
            [\<lparr>reply_ID = ''2'', reply_InReplyTo = ''1'', reply_Body = ''reply'',
              reply_CreatedAt = UnixNano 0,
              reply_Author = \<lparr>author_ID = ''8'', author_Name = ''bob''\<rparr>,
              reply_SysIDX = 0\<rparr>]\<rparr>)"
proof
  show "LoadPost (handlers_under (WithCancel True) example_backend) example_system example_post
      = (Return (Some ErrCanceled), example_post)"
    by (simp add: LoadPost_handlers_under example_backend_def example_system_def cancelled_def)
next
  show "LoadPost example_backend example_system example_post
     = (Return None,
        example_post\<lparr>post_Body := ''root'',
          post_Replies :=
            [\<lparr>reply_ID = ''2'', reply_InReplyTo = ''1'', reply_Body = ''reply'',
              reply_CreatedAt = UnixNano 0,
              reply_Author = \<lparr>author_ID = ''8'', author_Name = ''bob''\<rparr>,
              reply_SysIDX = 0\<rparr>]\<rparr>)"
    by (simp add: LoadPost_def example_backend_def example_system_def example_post_def
        example_stream_def cancelled_def cooked_markdown_def stream_reply_def parse_or_now_def
        Itoa_def nat_digits.simps digit_char_def)
qed

end
